theory Spec2Isabelle
  imports Main "HOL-Library.Word"
begin

section \<open>The authentication service of FinancelyAI\<close>

text \<open>
  The module under study is \<^verbatim>\<open>services/authService\<close> (sign-up, login, logout and the
  three queries) together with the start-up check \<^verbatim>\<open>checkUserStatus\<close> of the \<^verbatim>\<open>App\<close>
  component.  Every function is \<^verbatim>\<open>async\<close> or synchronous on a single thread: the model is
  sequential, one call runs to its end before the next starts.

  JavaScript strings are modelled as \<^typ>\<open>string\<close>, so a character is a code point below
  256.  The browser's storage, JSON and encoder are modelled after what the platform does
  on such strings; the digest \<^verbatim>\<open>crypto.subtle.digest('SHA-256', _)\<close> and the value drawn by
  \<^verbatim>\<open>crypto.randomUUID()\<close> are parameters of the functions that use them.
\<close>

subsection \<open>localStorage\<close>

type_synonym storage = "string \<rightharpoonup> string"

definition getItem :: "storage \<Rightarrow> string \<Rightarrow> string option" where
  "getItem st k = st k"

definition setItem :: "storage \<Rightarrow> string \<Rightarrow> string \<Rightarrow> storage" where
  "setItem st k v = st(k \<mapsto> v)"

definition removeItem :: "storage \<Rightarrow> string \<Rightarrow> storage" where
  "removeItem st k = st(k := None)"

text \<open>
  \<^verbatim>\<open>if (x)\<close> and \<^verbatim>\<open>!!x\<close> on a value of type \<^verbatim>\<open>string | null\<close>: \<^verbatim>\<open>null\<close> and the empty string
  are falsy, every other string is truthy.
\<close>

fun truthy :: "string option \<Rightarrow> bool" where
  "truthy None = False"
| "truthy (Some s) = (s \<noteq> [])"

definition USER_KEY :: string where
  "USER_KEY = ''financelyai_user''"

definition SESSION_KEY :: string where
  "SESSION_KEY = ''financelyai_session''"

subsection \<open>hashPassword\<close>

type_synonym byte = "8 word"

text \<open>
  \<^verbatim>\<open>new TextEncoder().encode(s)\<close>: UTF-8.  A code point below 128 is one byte, a code point
  from 128 to 255 is the two bytes \<^verbatim>\<open>110000xx 10xxxxxx\<close>.
\<close>

definition encode_char :: "char \<Rightarrow> byte list" where
  "encode_char c =
     (if (of_char c :: nat) < 128 then [of_nat (of_char c)]
      else [of_nat (192 + of_char c div 64), of_nat (128 + of_char c mod 64)])"

definition TextEncoder_encode :: "string \<Rightarrow> byte list" where
  "TextEncoder_encode s = concat (map encode_char s)"

text \<open>\<^verbatim>\<open>Number.prototype.toString(16)\<close> on a non-negative integer.\<close>

definition hexDigit :: "nat \<Rightarrow> char" where
  "hexDigit d = ''0123456789abcdef'' ! d"

fun toString16 :: "nat \<Rightarrow> string" where
  "toString16 n = (if n < 16 then [hexDigit n] else toString16 (n div 16) @ [hexDigit (n mod 16)])"

declare toString16.simps [simp del]

text \<open>
  \<^verbatim>\<open>String.prototype.padStart(targetLength, padString)\<close>: the pad string is repeated and
  cut to fill the missing length; a string that is long enough, or an empty pad string,
  leaves the receiver as it is.
\<close>

definition padStart :: "nat \<Rightarrow> string \<Rightarrow> string \<Rightarrow> string" where
  "padStart n fill s =
     (if n \<le> length s \<or> fill = [] then s
      else take (n - length s) (concat (replicate (n - length s) fill)) @ s)"

text \<open>
  \<^verbatim>\<open>
  const hashPassword = async (password: string, salt: string): Promise<string> => {
      const encoder = new TextEncoder();
      const data = encoder.encode(password + salt);
      const hashBuffer = await crypto.subtle.digest('SHA-256', data);
      const hashArray = Array.from(new Uint8Array(hashBuffer));
      return hashArray.map(b => b.toString(16).padStart(2, '0')).join('');
  };
  \<close>
  The first argument \<open>digest\<close> stands for \<^verbatim>\<open>crypto.subtle.digest('SHA-256', _)\<close>.
\<close>

definition hashPassword :: "(byte list \<Rightarrow> byte list) \<Rightarrow> string \<Rightarrow> string \<Rightarrow> string" where
  "hashPassword digest password salt =
     (let data = TextEncoder_encode (password @ salt);
          hashBuffer = digest data;
          hashArray = map unat hashBuffer
      in concat (map (\<lambda>b. padStart 2 ''0'' (toString16 b)) hashArray))"

subsection \<open>JSON text of the user record\<close>

text \<open>
  The object \<^verbatim>\<open>{ name, salt, hash }\<close> that \<^verbatim>\<open>signUp\<close> stores, and the object
  \<^verbatim>\<open>{ name }\<close> that \<^verbatim>\<open>getAuthenticatedUser\<close> returns.
\<close>

record authenticated_user =
  name :: string

record user_data = authenticated_user +
  salt :: string
  hash :: string

text \<open>
  \<^verbatim>\<open>JSON.stringify\<close> quotes a string: the double quote and the backslash get a backslash,
  the control characters 8, 9, 10, 12 and 13 their letter, every other character below 32
  the form \<^verbatim>\<open>\u00xx\<close> in lowercase, and the rest stands for itself.
\<close>

definition escape_char :: "char \<Rightarrow> string" where
  "escape_char c =
     (if c = CHR 0x22 then [CHR 0x5C, CHR 0x22]
      else if c = CHR 0x5C then [CHR 0x5C, CHR 0x5C]
      else if c = CHR 0x08 then [CHR 0x5C, CHR ''b'']
      else if c = CHR 0x09 then [CHR 0x5C, CHR ''t'']
      else if c = CHR 0x0A then [CHR 0x5C, CHR ''n'']
      else if c = CHR 0x0C then [CHR 0x5C, CHR ''f'']
      else if c = CHR 0x0D then [CHR 0x5C, CHR ''r'']
      else if (of_char c :: nat) < 32 then [CHR 0x5C, CHR ''u''] @ padStart 4 ''0'' (toString16 (of_char c))
      else [c])"

definition JSON_quote :: "string \<Rightarrow> string" where
  "JSON_quote s = CHR 0x22 # concat (map escape_char s) @ [CHR 0x22]"

definition JSON_stringify :: "user_data \<Rightarrow> string" where
  "JSON_stringify u =
     ''{'' @ JSON_quote ''name'' @ '':'' @ JSON_quote (name u) @ '','' @
             JSON_quote ''salt'' @ '':'' @ JSON_quote (salt u) @ '','' @
             JSON_quote ''hash'' @ '':'' @ JSON_quote (hash u) @ ''}''"

text \<open>
  \<^verbatim>\<open>JSON.parse\<close>, read at the type the source uses its result at: the text of an object
  with the string members \<^verbatim>\<open>name\<close>, \<^verbatim>\<open>salt\<close> and \<^verbatim>\<open>hash\<close>, in the order and layout
  \<^verbatim>\<open>JSON.stringify\<close> writes them.  String literals are read with the full JSON grammar
  (the eight letter escapes and \<^verbatim>\<open>\uXXXX\<close> in either case); a code point of 256 or more
  has no \<^typ>\<open>char\<close> and is refused.  \<open>None\<close> is the \<^verbatim>\<open>SyntaxError\<close> of the source and
  also covers every other text that is not such a record.
\<close>

definition hexValue :: "char \<Rightarrow> nat option" where
  "hexValue c =
     (let n = (of_char c :: nat) in
      if 48 \<le> n \<and> n \<le> 57 then Some (n - 48)
      else if 97 \<le> n \<and> n \<le> 102 then Some (n - 87)
      else if 65 \<le> n \<and> n \<le> 70 then Some (n - 55)
      else None)"

definition hex4 :: "char \<Rightarrow> char \<Rightarrow> char \<Rightarrow> char \<Rightarrow> nat option" where
  "hex4 a b c d =
     (case (hexValue a, hexValue b, hexValue c, hexValue d) of
        (Some x, Some y, Some z, Some w) \<Rightarrow> Some (((x * 16 + y) * 16 + z) * 16 + w)
      | _ \<Rightarrow> None)"

definition unescape :: "char \<Rightarrow> char option" where
  "unescape e =
     (if e = CHR 0x22 then Some (CHR 0x22)
      else if e = CHR 0x5C then Some (CHR 0x5C)
      else if e = CHR ''/'' then Some (CHR ''/'')
      else if e = CHR ''b'' then Some (CHR 0x08)
      else if e = CHR ''t'' then Some (CHR 0x09)
      else if e = CHR ''n'' then Some (CHR 0x0A)
      else if e = CHR ''f'' then Some (CHR 0x0C)
      else if e = CHR ''r'' then Some (CHR 0x0D)
      else None)"

definition cons_result :: "char \<Rightarrow> (string \<times> string) option \<Rightarrow> (string \<times> string) option" where
  "cons_result c r = map_option (\<lambda>(s, rest). (c # s, rest)) r"

text \<open>The characters of a string literal after its opening quote, and the text left over.\<close>

fun parse_chars :: "string \<Rightarrow> (string \<times> string) option" where
  "parse_chars [] = None"
| "parse_chars (c # cs) =
     (if c = CHR 0x22 then Some ([], cs)
      else if c = CHR 0x5C then
        (case cs of
           [] \<Rightarrow> None
         | e # r \<Rightarrow>
             if e = CHR ''u'' then
               (case r of
                  h1 # h2 # h3 # h4 # r' \<Rightarrow>
                    (case hex4 h1 h2 h3 h4 of
                       None \<Rightarrow> None
                     | Some v \<Rightarrow> if v < 256 then cons_result (char_of v) (parse_chars r') else None)
                | _ \<Rightarrow> None)
             else
               (case unescape e of
                  None \<Rightarrow> None
                | Some d \<Rightarrow> cons_result d (parse_chars r)))
      else if (of_char c :: nat) < 32 then None
      else cons_result c (parse_chars cs))"

definition parse_string :: "string \<Rightarrow> (string \<times> string) option" where
  "parse_string s = (case s of [] \<Rightarrow> None | c # cs \<Rightarrow> if c = CHR 0x22 then parse_chars cs else None)"

fun expect :: "string \<Rightarrow> string \<Rightarrow> string option" where
  "expect [] s = Some s"
| "expect (p # ps) [] = None"
| "expect (p # ps) (c # cs) = (if p = c then expect ps cs else None)"

definition parse_member :: "string \<Rightarrow> string \<Rightarrow> (string \<times> string) option" where
  "parse_member key s =
     (case parse_string s of
        None \<Rightarrow> None
      | Some (k, r1) \<Rightarrow>
          if k \<noteq> key then None
          else (case expect '':'' r1 of None \<Rightarrow> None | Some r2 \<Rightarrow> parse_string r2))"

definition JSON_parse :: "string \<Rightarrow> user_data option" where
  "JSON_parse s =
     (case expect ''{'' s of None \<Rightarrow> None | Some r0 \<Rightarrow>
      case parse_member ''name'' r0 of None \<Rightarrow> None | Some (n, r1) \<Rightarrow>
      case expect '','' r1 of None \<Rightarrow> None | Some r2 \<Rightarrow>
      case parse_member ''salt'' r2 of None \<Rightarrow> None | Some (s, r3) \<Rightarrow>
      case expect '','' r3 of None \<Rightarrow> None | Some r4 \<Rightarrow>
      case parse_member ''hash'' r4 of None \<Rightarrow> None | Some (h, r5) \<Rightarrow>
      case expect ''}'' r5 of None \<Rightarrow> None | Some r6 \<Rightarrow>
      if r6 = [] then Some \<lparr>name = n, salt = s, hash = h\<rparr> else None)"

subsection \<open>The authentication service\<close>

datatype error = SyntaxError

text \<open>
  \<^verbatim>\<open>
  export const signUp = async (name: string, pass: string): Promise<boolean> => {
      if (localStorage.getItem(USER_KEY)) {
          return false; // User already exists
      }
      const salt = crypto.randomUUID();
      const hash = await hashPassword(pass, salt);
      const userData = { name, salt, hash };
      localStorage.setItem(USER_KEY, JSON.stringify(userData));
      localStorage.setItem(SESSION_KEY, 'true');
      return true;
  };
  \<close>
  The argument \<open>uuid\<close> is the value that \<^verbatim>\<open>crypto.randomUUID()\<close> returns in this call.
  The result is the returned boolean and the storage after the call.  The storage is taken
  to accept every write, as the specification does.
\<close>

definition signUp ::
  "(byte list \<Rightarrow> byte list) \<Rightarrow> string \<Rightarrow> string \<Rightarrow> string \<Rightarrow> storage \<Rightarrow> bool \<times> storage" where
  "signUp digest uuid nm pass st =
     (if truthy (getItem st USER_KEY) then (False, st)
      else
        let slt = uuid;
            hsh = hashPassword digest pass slt;
            userData = \<lparr>name = nm, salt = slt, hash = hsh\<rparr>;
            st1 = setItem st USER_KEY (JSON_stringify userData);
            st2 = setItem st1 SESSION_KEY ''true''
        in (True, st2))"


text \<open>\<^verbatim>\<open>export const logout = (): void => { localStorage.removeItem(SESSION_KEY); };\<close>\<close>

definition logout :: "storage \<Rightarrow> storage" where
  "logout st = removeItem st SESSION_KEY"

text \<open>\<^verbatim>\<open>return !!localStorage.getItem(USER_KEY);\<close>\<close>

definition doesAccountExist :: "storage \<Rightarrow> bool" where
  "doesAccountExist st = truthy (getItem st USER_KEY)"

text \<open>\<^verbatim>\<open>return localStorage.getItem(SESSION_KEY) === 'true';\<close>\<close>

definition checkAuth :: "storage \<Rightarrow> bool" where
  "checkAuth st = (getItem st SESSION_KEY = Some ''true'')"

text \<open>
  \<^verbatim>\<open>
  export const getAuthenticatedUser = (): { name: string } | null => {
      const userDataString = localStorage.getItem(USER_KEY);
      if (!userDataString) return null;
      return { name: JSON.parse(userDataString).name };
  };
  \<close>
  \<open>Inr None\<close> is the returned \<^verbatim>\<open>null\<close>.  The function calls neither \<^verbatim>\<open>setItem\<close> nor
  \<^verbatim>\<open>removeItem\<close>, so it returns no storage.
\<close>

definition getAuthenticatedUser :: "storage \<Rightarrow> error + authenticated_user option" where
  "getAuthenticatedUser st =
     (let userDataString = getItem st USER_KEY in
      if \<not> truthy userDataString then Inr None
      else
        (case JSON_parse (the userDataString) of
           None \<Rightarrow> Inl SyntaxError
         | Some userData \<Rightarrow> Inr (Some \<lparr>name = name userData\<rparr>)))"

subsection \<open>The start-up check of the application shell\<close>

text \<open>
  The three pieces of component state that \<^verbatim>\<open>App\<close> keeps about authentication, with the
  initial values given to \<^verbatim>\<open>useState\<close>.
\<close>

record app_state =
  isAuthenticated :: bool
  hasAccount :: bool
  isLoadingAuth :: bool

definition initial_app :: app_state where
  "initial_app = \<lparr>isAuthenticated = False, hasAccount = False, isLoadingAuth = True\<rparr>"

text \<open>
  \<^verbatim>\<open>
  const checkUserStatus = async () => {
      const accountExists = await auth.doesAccountExist();
      setHasAccount(accountExists);
      if (accountExists) {
          const loggedIn = await auth.checkAuth();
          if (loggedIn) {
              setIsAuthenticated(true);
          }
      }
      setIsLoadingAuth(false);
  };
  \<close>
\<close>

definition checkUserStatus :: "storage \<Rightarrow> app_state \<Rightarrow> app_state" where
  "checkUserStatus st app =
     (let accountExists = doesAccountExist st;
          app1 = app\<lparr>hasAccount := accountExists\<rparr>;
          app2 = (if accountExists
                  then (let loggedIn = checkAuth st in
                        if loggedIn then app1\<lparr>isAuthenticated := True\<rparr> else app1)
                  else app1)
      in app2\<lparr>isLoadingAuth := False\<rparr>)"

text \<open>
  What \<^verbatim>\<open>App\<close> renders: the loading screen while the check runs, then the login or the
  sign-up form when not authenticated; \<open>Application\<close> stands for all that is rendered
  once authenticated (the loading of the household data, then the views).
\<close>

datatype screen = LoadingScreen | LoginScreen | SignUpScreen | Application

definition render :: "app_state \<Rightarrow> screen" where
  "render app =
     (if isLoadingAuth app then LoadingScreen
      else if \<not> isAuthenticated app then (if hasAccount app then LoginScreen else SignUpScreen)
      else Application)"

subsection \<open>Sample values\<close>

text \<open>
  Concrete values at which the theorems below are instantiated: a function from byte
  sequences to 32 bytes in the place of the digest, a version 4 UUID, the record of the
  user Priya with the password \<^verbatim>\<open>secret1\<close>, and a storage that holds this record and no
  session flag.
\<close>

definition sample_digest :: "byte list \<Rightarrow> byte list" where
  "sample_digest bs = replicate 31 (of_nat (length bs)) @ [sum_list bs]"

definition sample_uuid :: string where
  "sample_uuid = ''123e4567-e89b-42d3-a456-426614174000''"

definition sample_user :: user_data where
  "sample_user = \<lparr>name = ''Priya'', salt = sample_uuid, hash = hashPassword sample_digest ''secret1'' sample_uuid\<rparr>"

definition sample_store :: storage where
  "sample_store = [USER_KEY \<mapsto> JSON_stringify sample_user]"

section \<open>Auxiliary facts\<close>

subsection \<open>The two storage keys\<close>

lemma keys_distinct: "USER_KEY \<noteq> SESSION_KEY"
  by (simp add: USER_KEY_def SESSION_KEY_def)

subsection \<open>Two hexadecimal digits per byte\<close>

lemma below_16_disj:
  "(d::nat) < 16 \<Longrightarrow> d = 0 \<or> d = 1 \<or> d = 2 \<or> d = 3 \<or> d = 4 \<or> d = 5 \<or> d = 6 \<or> d = 7
    \<or> d = 8 \<or> d = 9 \<or> d = 10 \<or> d = 11 \<or> d = 12 \<or> d = 13 \<or> d = 14 \<or> d = 15"
  by presburger

lemma hexValue_hexDigit: "d < 16 \<Longrightarrow> hexValue (hexDigit d) = Some d"
  by (drule below_16_disj) (auto simp add: hexDigit_def hexValue_def)

lemma hexDigit_in_alphabet: "d < 16 \<Longrightarrow> hexDigit d \<in> set ''0123456789abcdef''"
  by (drule below_16_disj) (auto simp add: hexDigit_def)


lemma hexDigit_0: "hexDigit 0 = CHR ''0''"
  by (simp add: hexDigit_def)

lemma toString16_digit: "n < 16 \<Longrightarrow> toString16 n = [hexDigit n]"
  by (simp add: toString16.simps)

lemma toString16_two: "16 \<le> n \<Longrightarrow> n < 256 \<Longrightarrow> toString16 n = [hexDigit (n div 16), hexDigit (n mod 16)]"
  by (subst toString16.simps) (simp add: toString16_digit)

lemma hex_pair: "n < 256 \<Longrightarrow> padStart 2 ''0'' (toString16 n) = [hexDigit (n div 16), hexDigit (n mod 16)]"
proof (cases "n < 16")
  case True
  then show ?thesis by (simp add: toString16_digit padStart_def hexDigit_0)
next
  case False
  assume "n < 256"
  with False show ?thesis by (simp add: toString16_two padStart_def)
qed


lemma unat_byte_less: "unat (b :: byte) < 256"
  using unsigned_less [of b, where 'a = nat] by simp


lemma hashPassword_unfold:
  "hashPassword digest password slt =
     concat (map (\<lambda>b. [hexDigit (b div 16), hexDigit (b mod 16)])
       (map unat (digest (TextEncoder_encode (password @ slt)))))"
proof -
  have "map (\<lambda>b. padStart 2 ''0'' (toString16 b)) (map unat bs) =
        map (\<lambda>b. [hexDigit (b div 16), hexDigit (b mod 16)]) (map unat bs)" for bs :: "byte list"
    by (simp add: hex_pair unat_byte_less)
  then show ?thesis unfolding hashPassword_def Let_def by (rule arg_cong)
qed

lemma length_hashPassword:
  "length (hashPassword digest password slt) = 2 * length (digest (TextEncoder_encode (password @ slt)))"
  by (simp add: hashPassword_unfold length_concat comp_def sum_list_triv)

lemma set_hashPassword:
  "set (hashPassword digest password slt) \<subseteq> set ''0123456789abcdef''"
proof -
  have "hexDigit d \<in> set ''0123456789abcdef''" if "d < 16" for d
    using that by (rule hexDigit_in_alphabet)
  moreover have "unat b div 16 < 16" "unat b mod 16 < 16" for b :: byte
    using unat_byte_less [of b] by simp_all
  ultimately have "set [hexDigit (unat b div 16), hexDigit (unat b mod 16)] \<subseteq> set ''0123456789abcdef''"
    for b :: byte
    by (simp del: hexDigit_def)
  then show ?thesis
    unfolding hashPassword_unfold set_concat by (auto simp del: set_simps)
qed



subsection \<open>The encoder maps different strings to different byte sequences\<close>





subsection \<open>Reading back the JSON text of a record\<close>

lemma zero_fill:
  "replicate 2 (CHR ''0'') = ''00''"
  "replicate 3 (CHR ''0'') = ''000''"
  by (simp_all add: eval_nat_numeral)

lemma unicode_escape:
  assumes "n < 32"
  shows "\<exists>h3 h4. padStart 4 ''0'' (toString16 n) = [CHR ''0'', CHR ''0'', h3, h4] \<and>
           hex4 (CHR ''0'') (CHR ''0'') h3 h4 = Some n"
proof (cases "n < 16")
  case True
  then have "padStart 4 ''0'' (toString16 n) = [CHR ''0'', CHR ''0'', CHR ''0'', hexDigit n]"
    by (simp add: toString16_digit padStart_def zero_fill)
  moreover from True have "hex4 (CHR ''0'') (CHR ''0'') (CHR ''0'') (hexDigit n) = Some n"
    using hexValue_hexDigit [of 0] by (simp add: hex4_def hexValue_hexDigit hexDigit_0)
  ultimately show ?thesis by blast
next
  case False
  with assms have "padStart 4 ''0'' (toString16 n) = [CHR ''0'', CHR ''0'', hexDigit (n div 16), hexDigit (n mod 16)]"
    by (simp add: toString16_two padStart_def zero_fill)
  moreover from assms have "hex4 (CHR ''0'') (CHR ''0'') (hexDigit (n div 16)) (hexDigit (n mod 16)) = Some n"
    using hexValue_hexDigit [of 0] by (simp add: hex4_def hexValue_hexDigit hexDigit_0)
  ultimately show ?thesis by blast
qed

lemma parse_chars_escape: "parse_chars (escape_char c @ r) = cons_result c (parse_chars r)"
proof -
  consider (quote) "c = CHR 0x22" | (backslash) "c = CHR 0x5C"
    | (letter) "c \<in> {CHR 0x08, CHR 0x09, CHR 0x0A, CHR 0x0C, CHR 0x0D}"
    | (control) "c \<notin> {CHR 0x22, CHR 0x5C, CHR 0x08, CHR 0x09, CHR 0x0A, CHR 0x0C, CHR 0x0D}" "(of_char c :: nat) < 32"
    | (plain) "c \<notin> {CHR 0x22, CHR 0x5C, CHR 0x08, CHR 0x09, CHR 0x0A, CHR 0x0C, CHR 0x0D}" "\<not> (of_char c :: nat) < 32"
    by blast
  then show ?thesis
  proof cases
    case quote
    then show ?thesis by (simp add: escape_char_def unescape_def)
  next
    case backslash
    then show ?thesis by (simp add: escape_char_def unescape_def)
  next
    case letter
    then show ?thesis by (auto simp add: escape_char_def unescape_def)
  next
    case control
    from unicode_escape [OF control(2)] obtain h3 h4
      where pad: "padStart 4 ''0'' (toString16 (of_char c)) = [CHR ''0'', CHR ''0'', h3, h4]"
        and hex: "hex4 (CHR ''0'') (CHR ''0'') h3 h4 = Some (of_char c)"
      by blast
    from control(1) have "escape_char c = [CHR 0x5C, CHR ''u'', CHR ''0'', CHR ''0'', h3, h4]"
      using control(2) by (simp add: escape_char_def pad)
    then show ?thesis using hex by simp
  next
    case plain
    then show ?thesis by (simp add: escape_char_def)
  qed
qed

lemma parse_chars_quoted: "parse_chars (concat (map escape_char s) @ CHR 0x22 # r) = Some (s, r)"
  by (induction s) (simp_all add: parse_chars_escape cons_result_def del: parse_chars.simps(2), simp)

lemma parse_string_quote: "parse_string (JSON_quote s @ r) = Some (s, r)"
  by (simp add: parse_string_def JSON_quote_def parse_chars_quoted del: parse_chars.simps)

lemma expect_append: "expect p (p @ r) = Some r"
  by (induction p) simp_all

lemma parse_member_quote:
  "parse_member key (JSON_quote key @ CHR '':'' # JSON_quote v @ r) = Some (v, r)"
  by (simp add: parse_member_def parse_string_quote)

lemma JSON_roundtrip: "JSON_parse (JSON_stringify u) = Some u"
  by (simp add: JSON_parse_def JSON_stringify_def parse_member_quote)

lemma JSON_stringify_not_Nil: "JSON_stringify u \<noteq> []"
  by (simp add: JSON_stringify_def)

subsection \<open>Sign-up and login as storage transformers\<close>

lemma signUp_fresh:
  "\<not> doesAccountExist st \<Longrightarrow>
   signUp digest uuid nm pass st =
     (True, st(USER_KEY \<mapsto> JSON_stringify \<lparr>name = nm, salt = uuid, hash = hashPassword digest pass uuid\<rparr>,
               SESSION_KEY \<mapsto> ''true''))"
  by (simp add: signUp_def doesAccountExist_def setItem_def Let_def)




subsection \<open>Facts about the sample values\<close>

lemma sample_store_user: "getItem sample_store USER_KEY = Some (JSON_stringify sample_user)"
  by (simp add: sample_store_def getItem_def)

lemma sample_store_exists: "doesAccountExist sample_store"
  by (simp add: doesAccountExist_def sample_store_user JSON_stringify_not_Nil)

lemma empty_no_account: "\<not> doesAccountExist Map.empty"
  by (simp add: doesAccountExist_def getItem_def)



lemma sample_digest_32: "length (sample_digest bs) = 32"
  by (simp add: sample_digest_def)

section \<open>The claims of the specification\<close>





text \<open>
  Claim C3.  When a credential record already exists, \<^verbatim>\<open>signUp\<close> returns false and leaves
  the storage, and so the stored record, unchanged.  In particular a second \<^verbatim>\<open>signUp\<close>
  after a successful one returns false and does not alter what the first one stored.
\<close>

theorem signUp_existing:
  "(doesAccountExist st \<longrightarrow> signUp digest uuid nm pass st = (False, st)) \<and>
   (\<not> doesAccountExist st \<longrightarrow>
      signUp digest uuid' nm' pass' (snd (signUp digest uuid nm pass st)) =
        (False, snd (signUp digest uuid nm pass st)))"
proof (intro conjI impI)
  assume "doesAccountExist st"
  then show "signUp digest uuid nm pass st = (False, st)"
    by (simp add: signUp_def doesAccountExist_def)
next
  assume "\<not> doesAccountExist st"
  then have "truthy (getItem (snd (signUp digest uuid nm pass st)) USER_KEY)"
    by (simp add: signUp_fresh getItem_def keys_distinct JSON_stringify_not_Nil)
  then show "signUp digest uuid' nm' pass' (snd (signUp digest uuid nm pass st)) =
        (False, snd (signUp digest uuid nm pass st))"
    by (simp add: signUp_def [of digest uuid' nm' pass'])
qed

theorem signUp_existing_witness:
  "doesAccountExist sample_store \<and>
   signUp sample_digest ''9b2d0c1e-7a44-4f0b-8c55-0d6a1e2f3b4c'' ''Ravi'' ''hunter22'' sample_store = (False, sample_store) \<and>
   \<not> doesAccountExist Map.empty \<and>
   signUp sample_digest ''9b2d0c1e-7a44-4f0b-8c55-0d6a1e2f3b4c'' ''Ravi'' ''hunter22''
       (snd (signUp sample_digest sample_uuid ''Priya'' ''secret1'' Map.empty)) =
     (False, snd (signUp sample_digest sample_uuid ''Priya'' ''secret1'' Map.empty))"
  using signUp_existing [of sample_store sample_digest "''9b2d0c1e-7a44-4f0b-8c55-0d6a1e2f3b4c''" "''Ravi''" "''hunter22''"]
    signUp_existing [of Map.empty sample_digest sample_uuid "''Priya''" "''secret1''"
      "''9b2d0c1e-7a44-4f0b-8c55-0d6a1e2f3b4c''" "''Ravi''" "''hunter22''"]
    sample_store_exists empty_no_account
  by blast



text \<open>
  Claim C5.  \<^verbatim>\<open>logout\<close> removes the session flag and nothing else: from any storage,
  after \<^verbatim>\<open>logout\<close> the query \<^verbatim>\<open>checkAuth\<close> returns false, \<^verbatim>\<open>doesAccountExist\<close> returns
  what it returned before, and every key other than the session key, the user key among
  them, holds the value it held before.
\<close>

theorem logout_spec:
  "\<not> checkAuth (logout st) \<and>
   doesAccountExist (logout st) = doesAccountExist st \<and>
   getItem (logout st) USER_KEY = getItem st USER_KEY \<and>
   getItem (logout st) SESSION_KEY = None \<and>
   (\<forall>k. k \<noteq> SESSION_KEY \<longrightarrow> getItem (logout st) k = getItem st k)"
  by (simp add: logout_def removeItem_def checkAuth_def doesAccountExist_def getItem_def keys_distinct)

theorem logout_spec_witness:
  "USER_KEY \<noteq> SESSION_KEY \<and>
   checkAuth (sample_store(SESSION_KEY \<mapsto> ''true'')) \<and>
   \<not> checkAuth (logout (sample_store(SESSION_KEY \<mapsto> ''true''))) \<and>
   doesAccountExist (logout (sample_store(SESSION_KEY \<mapsto> ''true''))) \<and>
   getItem (logout (sample_store(SESSION_KEY \<mapsto> ''true''))) USER_KEY = Some (JSON_stringify sample_user)"
proof -
  let ?st = "sample_store(SESSION_KEY \<mapsto> ''true'')"
  have user: "getItem ?st USER_KEY = Some (JSON_stringify sample_user)"
    by (simp add: getItem_def sample_store_def keys_distinct)
  then have "doesAccountExist ?st"
    by (simp add: doesAccountExist_def JSON_stringify_not_Nil)
  moreover have "checkAuth ?st"
    by (simp add: checkAuth_def getItem_def)
  ultimately show ?thesis
    using logout_spec [of ?st] keys_distinct user by simp
qed

text \<open>
  Claim C6.  \<^verbatim>\<open>checkAuth\<close> returns true if and only if the value stored under the session
  key is exactly the string \<^verbatim>\<open>true\<close>: it is false when the key is absent, and when the key
  holds a value it is true just when that value is \<^verbatim>\<open>true\<close>.
\<close>

theorem checkAuth_spec:
  "checkAuth st = (st SESSION_KEY = Some ''true'') \<and>
   checkAuth (st(SESSION_KEY := None)) = False \<and>
   checkAuth (st(SESSION_KEY \<mapsto> v)) = (v = ''true'')"
  by (simp add: checkAuth_def getItem_def)

text \<open>
  Claim C7.  At start-up a missing credential record means that there is no account,
  whatever the session flag says: for every storage without a credential record the
  start-up check leaves the application unauthenticated and without an account, and the
  sign-up form is shown, even when the session flag holds \<^verbatim>\<open>true\<close>.
\<close>

theorem checkUserStatus_no_account:
  assumes "\<not> doesAccountExist st"
  shows "\<not> isAuthenticated (checkUserStatus st initial_app) \<and>
         \<not> hasAccount (checkUserStatus st initial_app) \<and>
         render (checkUserStatus st initial_app) = SignUpScreen"
  using assms by (simp add: checkUserStatus_def initial_app_def render_def Let_def)

theorem checkUserStatus_no_account_witness:
  "\<not> doesAccountExist [SESSION_KEY \<mapsto> ''true''] \<and>
   checkAuth [SESSION_KEY \<mapsto> ''true''] \<and>
   \<not> isAuthenticated (checkUserStatus [SESSION_KEY \<mapsto> ''true''] initial_app) \<and>
   \<not> hasAccount (checkUserStatus [SESSION_KEY \<mapsto> ''true''] initial_app) \<and>
   render (checkUserStatus [SESSION_KEY \<mapsto> ''true''] initial_app) = SignUpScreen"
proof -
  have no: "\<not> doesAccountExist [SESSION_KEY \<mapsto> ''true'']"
    by (simp add: doesAccountExist_def getItem_def keys_distinct)
  have "checkAuth [SESSION_KEY \<mapsto> ''true'']"
    by (simp add: checkAuth_def getItem_def)
  with no checkUserStatus_no_account [OF no] show ?thesis by blast
qed

text \<open>
  Claim C8.  For every password and salt, when the digest of the encoded input has 32
  bytes, \<^verbatim>\<open>hashPassword\<close> returns 64 characters, all of them lowercase hexadecimal digits:
  each byte is rendered as its high and its low digit, so a byte below 16 gets a leading
  zero.
\<close>

theorem hashPassword_hex:
  assumes "length (digest (TextEncoder_encode (password @ slt))) = 32"
  shows "length (hashPassword digest password slt) = 64 \<and>
         set (hashPassword digest password slt) \<subseteq> set ''0123456789abcdef'' \<and>
         hashPassword digest password slt =
           concat (map (\<lambda>b. [hexDigit (unat b div 16), hexDigit (unat b mod 16)])
             (digest (TextEncoder_encode (password @ slt))))"
proof (intro conjI)
  from assms show "length (hashPassword digest password slt) = 64"
    by (simp add: length_hashPassword)
next
  show "set (hashPassword digest password slt) \<subseteq> set ''0123456789abcdef''"
    by (rule set_hashPassword)
next
  show "hashPassword digest password slt =
          concat (map (\<lambda>b. [hexDigit (unat b div 16), hexDigit (unat b mod 16)])
            (digest (TextEncoder_encode (password @ slt))))"
    by (simp add: hashPassword_unfold comp_def)
qed

theorem hashPassword_hex_witness:
  "length (sample_digest (TextEncoder_encode (''secret1'' @ sample_uuid))) = 32 \<and>
   length (hashPassword sample_digest ''secret1'' sample_uuid) = 64 \<and>
   set (hashPassword sample_digest ''secret1'' sample_uuid) \<subseteq> set ''0123456789abcdef''"
  using hashPassword_hex [of sample_digest "''secret1''" sample_uuid, OF sample_digest_32]
    sample_digest_32
  by blast



text \<open>
  Claim C10.  \<^verbatim>\<open>getAuthenticatedUser\<close> returns \<^verbatim>\<open>null\<close> exactly when \<^verbatim>\<open>doesAccountExist\<close>
  returns false.  When a record is stored it returns the object holding the name of that
  record, which after a \<^verbatim>\<open>signUp\<close> is the name given to it.  Its result depends on the
  value under the user key only, so not on the session flag, and it writes nothing.
\<close>

theorem getAuthenticatedUser_spec:
  "(getAuthenticatedUser st = Inr None) = (\<not> doesAccountExist st) \<and>
   (\<forall>s u. getItem st USER_KEY = Some s \<and> s \<noteq> [] \<and> JSON_parse s = Some u \<longrightarrow>
      getAuthenticatedUser st = Inr (Some \<lparr>name = name u\<rparr>)) \<and>
   (\<not> doesAccountExist st \<longrightarrow>
      getAuthenticatedUser (snd (signUp digest uuid nm pass st)) = Inr (Some \<lparr>name = nm\<rparr>)) \<and>
   (\<forall>st'. getItem st' USER_KEY = getItem st USER_KEY \<longrightarrow>
      getAuthenticatedUser st' = getAuthenticatedUser st)"
proof (intro conjI allI impI)
  show "(getAuthenticatedUser st = Inr None) = (\<not> doesAccountExist st)"
    by (simp add: getAuthenticatedUser_def doesAccountExist_def Let_def split: option.splits)
next
  fix s u
  assume "getItem st USER_KEY = Some s \<and> s \<noteq> [] \<and> JSON_parse s = Some u"
  then show "getAuthenticatedUser st = Inr (Some \<lparr>name = name u\<rparr>)"
    by (simp add: getAuthenticatedUser_def Let_def)
next
  assume "\<not> doesAccountExist st"
  then show "getAuthenticatedUser (snd (signUp digest uuid nm pass st)) = Inr (Some \<lparr>name = nm\<rparr>)"
    by (simp add: signUp_fresh getAuthenticatedUser_def getItem_def keys_distinct
        JSON_roundtrip JSON_stringify_not_Nil Let_def)
next
  fix st'
  assume "getItem st' USER_KEY = getItem st USER_KEY"
  then show "getAuthenticatedUser st' = getAuthenticatedUser st"
    by (simp add: getAuthenticatedUser_def)
qed

theorem getAuthenticatedUser_spec_witness:
  "getItem sample_store USER_KEY = Some (JSON_stringify sample_user) \<and>
   JSON_stringify sample_user \<noteq> [] \<and>
   JSON_parse (JSON_stringify sample_user) = Some sample_user \<and>
   getAuthenticatedUser sample_store = Inr (Some \<lparr>name = ''Priya''\<rparr>) \<and>
   \<not> doesAccountExist Map.empty \<and>
   getAuthenticatedUser Map.empty = Inr None \<and>
   getAuthenticatedUser (snd (signUp sample_digest sample_uuid ''Priya'' ''secret1'' Map.empty)) =
     Inr (Some \<lparr>name = ''Priya''\<rparr>) \<and>
   getItem (sample_store(SESSION_KEY \<mapsto> ''true'')) USER_KEY = getItem sample_store USER_KEY \<and>
   getAuthenticatedUser (sample_store(SESSION_KEY \<mapsto> ''true'')) = getAuthenticatedUser sample_store"
proof -
  note hyp = sample_store_user JSON_stringify_not_Nil [of sample_user] JSON_roundtrip [of sample_user]
  have frame: "getItem (sample_store(SESSION_KEY \<mapsto> ''true'')) USER_KEY = getItem sample_store USER_KEY"
    by (simp add: getItem_def keys_distinct)
  have nm: "name sample_user = ''Priya''"
    by (simp add: sample_user_def)
  from getAuthenticatedUser_spec [of sample_store sample_digest sample_uuid "''Priya''" "''secret1''"] hyp
  have "getAuthenticatedUser sample_store = Inr (Some \<lparr>name = name sample_user\<rparr>)"
    by blast
  moreover from getAuthenticatedUser_spec [of sample_store sample_digest sample_uuid "''Priya''" "''secret1''"] frame
  have "getAuthenticatedUser (sample_store(SESSION_KEY \<mapsto> ''true'')) = getAuthenticatedUser sample_store"
    by blast
  moreover from getAuthenticatedUser_spec [of Map.empty sample_digest sample_uuid "''Priya''" "''secret1''"]
    empty_no_account
  have "getAuthenticatedUser Map.empty = Inr None"
    "getAuthenticatedUser (snd (signUp sample_digest sample_uuid ''Priya'' ''secret1'' Map.empty)) =
       Inr (Some \<lparr>name = ''Priya''\<rparr>)"
    by blast+
  ultimately show ?thesis using hyp frame empty_no_account nm by simp
qed

end
